theory Spec2Isabelle
  imports Main
begin

section \<open>JavaScript values and the built-ins the server uses\<close>

text \<open>
  The server is \<^verbatim>\<open>src/index.ts\<close>. A JavaScript string is modelled as a \<open>string\<close>
  whose characters are the UTF-16 code units below 256 (ASCII and Latin-1); the
  built-ins below are exact on that range.

  Tool arguments arrive as JSON. \<open>JUndefined\<close> is what reading an absent property
  gives. A number is carried as the text that \<^verbatim>\<open>String(n)\<close> (and, for the finite
  numbers JSON has, \<^verbatim>\<open>JSON.stringify(n)\<close>) gives for it, so zero is \<open>''0''\<close>.
\<close>

datatype json =
    JUndefined
  | JNull
  | JBool bool
  | JNum string
  | JStr string
  | JArr "json list"
  | JObj "(string \<times> json) list"

text \<open>Truthiness, as \<^verbatim>\<open>!x\<close> and \<^verbatim>\<open>x || y\<close> test it.\<close>

fun truthy :: "json \<Rightarrow> bool" where
  "truthy JUndefined = False"
| "truthy JNull = False"
| "truthy (JBool b) = b"
| "truthy (JNum s) = (s \<noteq> ''0'' \<and> s \<noteq> ''NaN'')"
| "truthy (JStr s) = (s \<noteq> '''')"
| "truthy (JArr xs) = True"
| "truthy (JObj kvs) = True"

text \<open>\<^verbatim>\<open>x || y\<close>\<close>

definition js_or :: "json \<Rightarrow> json \<Rightarrow> json" where
  "js_or x y = (if truthy x then x else y)"

text \<open>\<^verbatim>\<open>Array.isArray(x)\<close>\<close>

fun Array_isArray :: "json \<Rightarrow> bool" where
  "Array_isArray (JArr xs) = True"
| "Array_isArray v = False"

text \<open>
  \<^verbatim>\<open>String(x)\<close>. An array is its elements joined by commas, \<^verbatim>\<open>null\<close> and
  \<^verbatim>\<open>undefined\<close> elements giving the empty string. A plain object gives
  \<^verbatim>\<open>[object Object]\<close> through the inherited \<^verbatim>\<open>toString\<close>; an object parsed from
  JSON with a key \<^verbatim>\<open>toString\<close> of its own shadows that method with a value
  that cannot be called, and the conversion throws a \<^verbatim>\<open>TypeError\<close>: that is the
  value \<open>None\<close>.
\<close>

fun js_String :: "json \<Rightarrow> string option"
  and join_elements :: "json list \<Rightarrow> string option" where
  "js_String JUndefined = Some ''undefined''"
| "js_String JNull = Some ''null''"
| "js_String (JBool b) = Some (if b then ''true'' else ''false'')"
| "js_String (JNum s) = Some s"
| "js_String (JStr s) = Some s"
| "js_String (JArr xs) = join_elements xs"
| "js_String (JObj kvs) =
     (if ''toString'' \<in> fst ` set kvs then None else Some ''[object Object]'')"
| "join_elements [] = Some ''''"
| "join_elements (x # xs) =
     (case (if x = JNull \<or> x = JUndefined then Some '''' else js_String x) of
        None \<Rightarrow> None
      | Some s \<Rightarrow>
          (if xs = [] then Some s
           else (case join_elements xs of
                   None \<Rightarrow> None
                 | Some r \<Rightarrow> Some (s @ '','' @ r))))"

text \<open>\<^verbatim>\<open>s.toLowerCase()\<close>: the letters A to Z and the Latin-1 capitals.\<close>

definition lower_char :: "char \<Rightarrow> char" where
  "lower_char c =
     (let n = (of_char c :: nat)
      in if (65 \<le> n \<and> n \<le> 90) \<or> (192 \<le> n \<and> n \<le> 222 \<and> n \<noteq> 215)
         then char_of (n + 32) else c)"

definition toLowerCase :: "string \<Rightarrow> string" where
  "toLowerCase s = map lower_char s"

text \<open>
  \<^verbatim>\<open>s.trim()\<close>: white space is tab, line feed, vertical tab, form feed, carriage
  return, space and the no-break space.
\<close>

definition is_whitespace :: "char \<Rightarrow> bool" where
  "is_whitespace c = ((of_char c :: nat) \<in> {9, 10, 11, 12, 13, 32, 160})"

definition trim :: "string \<Rightarrow> string" where
  "trim s = rev (dropWhile is_whitespace (rev (dropWhile is_whitespace s)))"

text \<open>A non-negative integer in decimal, as a template literal prints it.\<close>

fun show_nat :: "nat \<Rightarrow> string" where
  "show_nat n =
     (if n < 10 then [''0123456789'' ! n]
      else show_nat (n div 10) @ [''0123456789'' ! (n mod 10)])"

declare show_nat.simps [simp del]

text \<open>
  \<^verbatim>\<open>JSON.stringify(x)\<close>. A string is quoted, with the quote, the backslash and the
  control characters escaped. \<^verbatim>\<open>undefined\<close> has no JSON text (\<open>None\<close>); inside an
  array it is written \<^verbatim>\<open>null\<close>, inside an object its key is left out.
\<close>

definition hex_digit :: "nat \<Rightarrow> char" where
  "hex_digit n = (if n < 10 then char_of (48 + n) else char_of (87 + n))"

definition escape_char :: "char \<Rightarrow> string" where
  "escape_char c =
     (let n = (of_char c :: nat)
      in if n = 34 then [CHR 0x5C, CHR 0x22]
         else if n = 92 then [CHR 0x5C, CHR 0x5C]
         else if n = 8 then [CHR 0x5C, CHR ''b'']
         else if n = 12 then [CHR 0x5C, CHR ''f'']
         else if n = 10 then [CHR 0x5C, CHR ''n'']
         else if n = 13 then [CHR 0x5C, CHR ''r'']
         else if n = 9 then [CHR 0x5C, CHR ''t'']
         else if n < 32 then [CHR 0x5C, CHR ''u'', CHR ''0'', CHR ''0'',
                               hex_digit (n div 16), hex_digit (n mod 16)]
         else [c])"

fun join_commas :: "string list \<Rightarrow> string" where
  "join_commas [] = ''''"
| "join_commas [s] = s"
| "join_commas (s # t # ts) = s @ '','' @ join_commas (t # ts)"

definition quote :: "string \<Rightarrow> string" where
  "quote s = [CHR 0x22] @ concat (map escape_char s) @ [CHR 0x22]"

fun JSON_stringify :: "json \<Rightarrow> string option"
  and stringify_elements :: "json list \<Rightarrow> string"
  and stringify_members :: "(string \<times> json) list \<Rightarrow> string list" where
  "JSON_stringify JUndefined = None"
| "JSON_stringify JNull = Some ''null''"
| "JSON_stringify (JBool b) = Some (if b then ''true'' else ''false'')"
| "JSON_stringify (JNum s) = Some s"
| "JSON_stringify (JStr s) = Some (quote s)"
| "JSON_stringify (JArr xs) = Some (''['' @ stringify_elements xs @ '']'')"
| "JSON_stringify (JObj kvs) =
     Some (''{'' @ join_commas (stringify_members kvs) @ ''}'')"
| "stringify_elements [] = ''''"
| "stringify_elements (x # xs) =
     (case JSON_stringify x of None \<Rightarrow> ''null'' | Some s \<Rightarrow> s)
     @ (if xs = [] then '''' else '','' @ stringify_elements xs)"
| "stringify_members [] = []"
| "stringify_members ((k, v) # kvs) =
     (case JSON_stringify v of
        None \<Rightarrow> stringify_members kvs
      | Some s \<Rightarrow> (quote k @ '':'' @ s) # stringify_members kvs)"

section \<open>The output format flag\<close>

text \<open>
  The \<^verbatim>\<open>switch (format.toLowerCase())\<close> at the head of
  \<^verbatim>\<open>executeMathematicaCode\<close>: \<^verbatim>\<open>case "text"\<close> shares the \<^verbatim>\<open>default\<close> branch.
\<close>

definition formatOption :: "string \<Rightarrow> string" where
  "formatOption format =
     (let f = toLowerCase format
      in if f = ''latex'' then ''-format latex''
         else if f = ''mathematica'' then ''-format mathematica''
         else ''-format text'')"

section \<open>The environment and the trace of effects\<close>

text \<open>The error codes of the SDK's \<^verbatim>\<open>ErrorCode\<close> that the server raises.\<close>

datatype ErrorCode = InvalidParams | MethodNotFound | InternalError

text \<open>\<^verbatim>\<open>new McpError(code, message)\<close>, holding the two arguments of the constructor.\<close>

datatype mcp_error = McpError ErrorCode string

text \<open>
  What a call does to the outside, in order: a line written by \<^verbatim>\<open>log(type, message)\<close>
  (the optional data argument is not recorded), a subprocess started by
  \<^verbatim>\<open>execAsync(command)\<close>, \<^verbatim>\<open>writeFile(path, content)\<close> and \<^verbatim>\<open>unlink(path)\<close>.
\<close>

datatype event =
    Log string string
  | Exec string
  | WriteFile string string
  | Unlink string

text \<open>The kinds of event, to count them in a trace.\<close>

fun is_Exec :: "event \<Rightarrow> bool" where
  "is_Exec (Exec cmd) = True"
| "is_Exec ev = False"

fun is_WriteFile :: "event \<Rightarrow> bool" where
  "is_WriteFile (WriteFile path content) = True"
| "is_WriteFile ev = False"

fun is_Unlink :: "event \<Rightarrow> bool" where
  "is_Unlink (Unlink path) = True"
| "is_Unlink ev = False"

text \<open>
  \<^verbatim>\<open>execAsync\<close> resolves with the subprocess's standard output and standard error,
  or rejects (the command could not be started, or it exited with a failure) with
  an error whose \<^verbatim>\<open>message\<close> is kept.
\<close>

datatype exec_result = ExecOk string string | ExecFail string

text \<open>
  Everything outside \<^verbatim>\<open>index.ts\<close> that a call depends on. \<open>mcp_message\<close> is the
  \<^verbatim>\<open>message\<close> property the SDK gives an \<^verbatim>\<open>McpError\<close> built from a code and a
  text; \<open>Date_now\<close> is \<^verbatim>\<open>Date.now()\<close>; \<open>random_suffix\<close> is
  \<^verbatim>\<open>Math.random().toString(36).substring(7)\<close>; \<open>tmpdir_join\<close> is
  \<^verbatim>\<open>join(tmpdir(), name)\<close>. The last three fields are the outcomes of the
  subprocess and file system calls: \<open>writeFile\<close> and \<open>unlink\<close> give \<open>None\<close> when
  they succeed and the message of the error when they reject.
\<close>

record env =
  mcp_message :: "ErrorCode \<Rightarrow> string \<Rightarrow> string"
  Date_now :: nat
  random_suffix :: string
  tmpdir_join :: "string \<Rightarrow> string"
  execAsync :: "string \<Rightarrow> exec_result"
  writeFile :: "string \<Rightarrow> string \<Rightarrow> string option"
  unlink :: "string \<Rightarrow> string option"

text \<open>\<^verbatim>\<open>error.message\<close> of a caught \<^verbatim>\<open>McpError\<close>.\<close>

fun message :: "env \<Rightarrow> mcp_error \<Rightarrow> string" where
  "message w (McpError c m) = mcp_message w c m"

section \<open>The reachability probe\<close>

text \<open>\<^verbatim>\<open>checkMathematicaInstallation\<close>: the events and the boolean it returns.\<close>

definition checkMathematicaInstallation :: "env \<Rightarrow> event list \<times> bool" where
  "checkMathematicaInstallation w =
     (case execAsync w ''wolframscript -help'' of
        ExecOk out err \<Rightarrow>
          ([Log ''Setup'' ''Checking Mathematica installation...'',
            Exec ''wolframscript -help'',
            Log ''Setup'' ''Mathematica installation verified''], True)
      | ExecFail e \<Rightarrow>
          ([Log ''Setup'' ''Checking Mathematica installation...'',
            Exec ''wolframscript -help'',
            Log ''Error'' ''Mathematica not found or not accessible''], False))"

section \<open>The execution adapter\<close>

definition tempFilePath :: "env \<Rightarrow> string" where
  "tempFilePath w =
     tmpdir_join w (''mcp_mathematica_'' @ show_nat (Date_now w) @ ''_''
                    @ random_suffix w @ ''.wl'')"

text \<open>The command line given to \<^verbatim>\<open>execAsync\<close>; the path stands in double quotes.\<close>

definition engine_command :: "env \<Rightarrow> string \<Rightarrow> string" where
  "engine_command w format =
     ''wolframscript '' @ formatOption format @ '' -file '' @ [CHR 0x22]
     @ tempFilePath w @ [CHR 0x22]"

text \<open>
  The \<^verbatim>\<open>try\<close> block with its \<^verbatim>\<open>catch\<close>: the file is written, then the engine runs
  on it; an error of either step is logged and thrown again as an
  \<^verbatim>\<open>InternalError\<close>.
\<close>

definition execute_try_catch ::
  "env \<Rightarrow> string \<Rightarrow> string \<Rightarrow> event list \<times> (mcp_error + string)" where
  "execute_try_catch w code format =
     (case writeFile w (tempFilePath w) code of
        Some e \<Rightarrow>
          ([Log ''API'' ''Executing Mathematica code'',
            WriteFile (tempFilePath w) code,
            Log ''Error'' ''Failed to execute Mathematica code''],
           Inl (McpError InternalError (''Failed to execute Mathematica code: '' @ e)))
      | None \<Rightarrow>
          (case execAsync w (engine_command w format) of
             ExecFail e \<Rightarrow>
               ([Log ''API'' ''Executing Mathematica code'',
                 WriteFile (tempFilePath w) code,
                 Exec (engine_command w format),
                 Log ''Error'' ''Failed to execute Mathematica code''],
                Inl (McpError InternalError
                       (''Failed to execute Mathematica code: '' @ e)))
           | ExecOk out err \<Rightarrow>
               ([Log ''API'' ''Executing Mathematica code'',
                 WriteFile (tempFilePath w) code,
                 Exec (engine_command w format)]
                @ (if err \<noteq> []
                   then [Log ''Warning'' ''Mathematica execution produced stderr output'']
                   else [])
                @ [Log ''API'' ''Mathematica execution completed successfully''],
                Inr (trim out))))"

text \<open>The \<^verbatim>\<open>finally\<close> block: the file is unlinked; a failure is logged and dropped.\<close>

definition execute_finally :: "env \<Rightarrow> event list" where
  "execute_finally w =
     Unlink (tempFilePath w)
     # (case unlink w (tempFilePath w) of
          None \<Rightarrow> []
        | Some e \<Rightarrow> [Log ''Warning'' ''Failed to delete temporary file''])"

definition executeMathematicaCode ::
  "env \<Rightarrow> string \<Rightarrow> string \<Rightarrow> event list \<times> (mcp_error + string)" where
  "executeMathematicaCode w code format =
     (case execute_try_catch w code format of
        (t, r) \<Rightarrow> (t @ execute_finally w, r))"

section \<open>The derivation verifier\<close>

text \<open>
  The program text of the template literal \<^verbatim>\<open>verificationCode\<close>, with
  \<^verbatim>\<open>JSON.stringify(steps)\<close> spliced in. \<open>CHR 0x22\<close> is the double quote and
  \<open>CHR 0x5C\<close> the backslash.
\<close>

definition verificationCode :: "json list \<Rightarrow> string" where
  "verificationCode steps =
     ''\<newline>      steps = ''
      @ (case JSON_stringify (JArr steps) of None \<Rightarrow> ''undefined'' | Some s \<Rightarrow> s)
      @ '';\<newline>''
      @ ''      results = {};\<newline>''
      @ ''      \<newline>''
      @ ''      (* Check if each step follows from the previous *)\<newline>''
      @ ''      For[i = 2, i <= Length[steps], i++,\<newline>''
      @ ''        prev = ToExpression[steps[[i-1]]];\<newline>''
      @ ''        current = ToExpression[steps[[i]]];\<newline>''
      @ ''        \<newline>''
      @ ''        (* Check if they're mathematically equivalent *)\<newline>''
      @ ''        equivalent = Simplify[prev == current];\<newline>''
      @ ''        \<newline>''
      @ ''        (* Store the result *)\<newline>''
      @ ''        AppendTo[results, {\<newline>''
      @ ''          '' @ [CHR 0x22] @ ''step'' @ [CHR 0x22] @ '' -> i,\<newline>''
      @ ''          '' @ [CHR 0x22] @ ''expression'' @ [CHR 0x22] @ '' -> steps[[i]],\<newline>''
      @ ''          '' @ [CHR 0x22] @ ''equivalent'' @ [CHR 0x22] @ '' -> equivalent,\<newline>''
      @ ''          '' @ [CHR 0x22] @ ''simplification'' @ [CHR 0x22] @ '' -> Simplify[current]\<newline>''
      @ ''        }];\<newline>''
      @ ''      ];\<newline>''
      @ ''      \<newline>''
      @ ''      (* Format the results *)\<newline>''
      @ ''      FormattedResults = '' @ [CHR 0x22] @ ''Derivation Verification Results:'' @ [CHR 0x5C] @ ''n'' @ [CHR 0x5C] @ ''n'' @ [CHR 0x22] @ '';\<newline>''
      @ ''      \<newline>''
      @ ''      For[i = 1, i <= Length[results], i++,\<newline>''
      @ ''        result = results[[i]];\<newline>''
      @ ''        stepNum = result['' @ [CHR 0x22] @ ''step'' @ [CHR 0x22] @ ''];\<newline>''
      @ ''        expr = result['' @ [CHR 0x22] @ ''expression'' @ [CHR 0x22] @ ''];\<newline>''
      @ ''        isEquiv = result['' @ [CHR 0x22] @ ''equivalent'' @ [CHR 0x22] @ ''];\<newline>''
      @ ''        \<newline>''
      @ ''        FormattedResults = FormattedResults <> \<newline>''
      @ ''          '' @ [CHR 0x22] @ ''Step '' @ [CHR 0x22] @ '' <> ToString[stepNum] <> '' @ [CHR 0x22] @ '': '' @ [CHR 0x22] @ '' <> expr <> '' @ [CHR 0x22] @ [CHR 0x5C] @ ''n'' @ [CHR 0x22] @ '' <>\<newline>''
      @ ''          '' @ [CHR 0x22] @ ''  Valid: '' @ [CHR 0x22] @ '' <> ToString[isEquiv] <> '' @ [CHR 0x22] @ [CHR 0x5C] @ ''n'' @ [CHR 0x5C] @ ''n'' @ [CHR 0x22] @ '';\<newline>''
      @ ''      ];\<newline>''
      @ ''      \<newline>''
      @ ''      FormattedResults\<newline>''
      @ ''    ''"

definition verifyDerivation ::
  "env \<Rightarrow> json list \<Rightarrow> string \<Rightarrow> event list \<times> (mcp_error + string)" where
  "verifyDerivation w steps format =
     (if length steps < 2
      then ([], Inl (McpError InvalidParams
                       ''At least two steps are required for a derivation''))
      else (case executeMathematicaCode w (verificationCode steps) format of
              (t, Inr out) \<Rightarrow>
                (Log ''API'' ''Verifying mathematical derivation'' # t, Inr out)
            | (t, Inl e) \<Rightarrow>
                (Log ''API'' ''Verifying mathematical derivation'' # t
                 @ [Log ''Error'' ''Failed to verify derivation''],
                 Inl (McpError InternalError
                        (''Failed to verify derivation: '' @ message w e)))))"

section \<open>The tool dispatcher\<close>

text \<open>
  A tool call: \<^verbatim>\<open>request.params.name\<close> and \<^verbatim>\<open>request.params.arguments\<close>, which may
  be absent.
\<close>

record request =
  params_name :: string
  params_arguments :: "(string \<rightharpoonup> json) option"

text \<open>\<^verbatim>\<open>request.params.arguments?.key\<close>\<close>

definition argument :: "request \<Rightarrow> string \<Rightarrow> json" where
  "argument r key =
     (case params_arguments r of
        None \<Rightarrow> JUndefined
      | Some a \<Rightarrow> (case a key of None \<Rightarrow> JUndefined | Some v \<Rightarrow> v))"

text \<open>
  The result of a call: one text content block, and the error flag (absent in the
  source when the call succeeds, \<open>False\<close> here).
\<close>

record response =
  content_text :: string
  isError :: bool

text \<open>
  What the handler throws: an \<^verbatim>\<open>McpError\<close>, or the \<^verbatim>\<open>TypeError\<close> of a
  \<^verbatim>\<open>String(...)\<close> conversion.
\<close>

datatype exception = Mcp mcp_error | TypeError

definition unavailable_text :: string where
  "unavailable_text =
     ''Error: Mathematica (wolframscript) is not installed or not accessible. ''
     @ ''Please make sure Mathematica is installed and wolframscript is in your PATH.''"

text \<open>\<^verbatim>\<open>case "execute_mathematica"\<close>\<close>

definition execute_mathematica_case ::
  "env \<Rightarrow> request \<Rightarrow> event list \<times> (exception + response)" where
  "execute_mathematica_case w r =
     (case js_String (argument r ''code'') of
        None \<Rightarrow> ([Log ''Tool'' ''Executing execute_mathematica tool''], Inl TypeError)
      | Some code \<Rightarrow>
          (case js_String (js_or (argument r ''format'') (JStr ''text'')) of
             None \<Rightarrow> ([Log ''Tool'' ''Executing execute_mathematica tool''], Inl TypeError)
           | Some format \<Rightarrow>
               (if code = []
                then ([Log ''Tool'' ''Executing execute_mathematica tool''],
                      Inl (Mcp (McpError InvalidParams ''Mathematica code is required'')))
                else (case executeMathematicaCode w code format of
                        (t, Inr result) \<Rightarrow>
                          (Log ''Tool'' ''Executing execute_mathematica tool'' # t,
                           Inr \<lparr>content_text = result, isError = False\<rparr>)
                      | (t, Inl e) \<Rightarrow>
                          (Log ''Tool'' ''Executing execute_mathematica tool'' # t
                           @ [Log ''Error'' ''Tool execution failed''],
                           Inr \<lparr>content_text =
                                  ''Error executing Mathematica code: '' @ message w e,
                                isError = True\<rparr>)))))"

text \<open>\<^verbatim>\<open>steps.length\<close> and the elements of \<^verbatim>\<open>steps\<close>, read once it is known to be an array.\<close>

fun elements :: "json \<Rightarrow> json list" where
  "elements (JArr xs) = xs"
| "elements v = []"

text \<open>
  \<^verbatim>\<open>case "verify_derivation"\<close>. \<^verbatim>\<open>steps\<close> is read without a conversion, and
  \<^verbatim>\<open>format\<close> is converted before \<^verbatim>\<open>steps\<close> is tested. The test does not look
  at the elements of the array.
\<close>

definition verify_derivation_case ::
  "env \<Rightarrow> request \<Rightarrow> event list \<times> (exception + response)" where
  "verify_derivation_case w r =
     (case js_String (js_or (argument r ''format'') (JStr ''text'')) of
        None \<Rightarrow> ([Log ''Tool'' ''Executing verify_derivation tool''], Inl TypeError)
      | Some format \<Rightarrow>
          (if \<not> truthy (argument r ''steps'') \<or> \<not> Array_isArray (argument r ''steps'')
              \<or> length (elements (argument r ''steps'')) < 2
           then ([Log ''Tool'' ''Executing verify_derivation tool''],
                 Inl (Mcp (McpError InvalidParams
                             ''At least two derivation steps are required'')))
           else (case verifyDerivation w (elements (argument r ''steps'')) format of
                   (t, Inr result) \<Rightarrow>
                     (Log ''Tool'' ''Executing verify_derivation tool'' # t,
                      Inr \<lparr>content_text = result, isError = False\<rparr>)
                 | (t, Inl e) \<Rightarrow>
                     (Log ''Tool'' ''Executing verify_derivation tool'' # t
                      @ [Log ''Error'' ''Tool execution failed''],
                      Inr \<lparr>content_text =
                             ''Error verifying derivation: '' @ message w e,
                           isError = True\<rparr>))))"

text \<open>The \<^verbatim>\<open>switch (request.params.name)\<close>.\<close>

definition dispatch :: "env \<Rightarrow> request \<Rightarrow> event list \<times> (exception + response)" where
  "dispatch w r =
     (if params_name r = ''execute_mathematica'' then execute_mathematica_case w r
      else if params_name r = ''verify_derivation'' then verify_derivation_case w r
      else ([Log ''Error'' (''Unknown tool: '' @ params_name r)],
            Inl (Mcp (McpError MethodNotFound (''Unknown tool: '' @ params_name r)))))"

text \<open>The handler of \<^verbatim>\<open>CallToolRequestSchema\<close>: the probe, then the switch.\<close>

definition handler :: "env \<Rightarrow> request \<Rightarrow> event list \<times> (exception + response)" where
  "handler w r =
     (case checkMathematicaInstallation w of
        (t0, available) \<Rightarrow>
          (if \<not> available
           then (t0, Inr \<lparr>content_text = unavailable_text, isError = True\<rparr>)
           else (case dispatch w r of (t, res) \<Rightarrow> (t0 @ t, res))))"

section \<open>Sample environments and requests\<close>

text \<open>
  Concrete inputs on which the theorems below are evaluated. \<open>sdk_message\<close>
  prefixes the text of an error by its JSON-RPC code.
\<close>

definition sdk_message :: "ErrorCode \<Rightarrow> string \<Rightarrow> string" where
  "sdk_message c m =
     ''MCP error ''
     @ (case c of InvalidParams \<Rightarrow> ''-32602''
                | MethodNotFound \<Rightarrow> ''-32601''
                | InternalError \<Rightarrow> ''-32603'')
     @ '': '' @ m"

text \<open>Every outside call succeeds; the engine prints \<open>4\<close> and a line feed.\<close>

definition working_env :: env where
  "working_env =
     \<lparr>mcp_message = sdk_message,
      Date_now = 1700000000000,
      random_suffix = ''k3x9q'',
      tmpdir_join = (\<lambda>name. ''/tmp/'' @ name),
      execAsync = (\<lambda>cmd. ExecOk ''4\<newline>'' []),
      writeFile = (\<lambda>path content. None),
      unlink = (\<lambda>path. None)\<rparr>"

text \<open>The engine is not installed: no command starts.\<close>

definition engine_missing_env :: env where
  "engine_missing_env =
     working_env\<lparr>execAsync := (\<lambda>cmd. ExecFail ''Command failed: wolframscript: not found'')\<rparr>"

text \<open>The probe succeeds and every other run of the engine exits with a failure.\<close>

definition engine_failing_env :: env where
  "engine_failing_env =
     working_env\<lparr>execAsync :=
       (\<lambda>cmd. if cmd = ''wolframscript -help'' then ExecOk ''OPTIONS:'' []
              else ExecFail ''Command failed: exit code 1'')\<rparr>"

text \<open>The temporary file cannot be written.\<close>

definition disk_full_env :: env where
  "disk_full_env =
     working_env\<lparr>writeFile := (\<lambda>path content. Some ''ENOSPC: no space left on device'')\<rparr>"

text \<open>The temporary file cannot be deleted.\<close>

definition unlink_failing_env :: env where
  "unlink_failing_env =
     working_env\<lparr>unlink := (\<lambda>path. Some ''EPERM: operation not permitted'')\<rparr>"

definition tool_call :: "string \<Rightarrow> (string \<times> json) list \<Rightarrow> request" where
  "tool_call name args = \<lparr>params_name = name, params_arguments = Some (map_of args)\<rparr>"

section \<open>Facts about the built-ins\<close>

lemma tempFilePath_working_env:
  "tempFilePath working_env = ''/tmp/mcp_mathematica_1700000000000_k3x9q.wl''"
  by (simp add: tempFilePath_def working_env_def show_nat.simps)

lemma formatOption_text:
  "toLowerCase format \<noteq> ''latex'' \<Longrightarrow> toLowerCase format \<noteq> ''mathematica'' \<Longrightarrow>
   formatOption format = ''-format text''"
  by (simp add: formatOption_def)

lemma toLowerCase_text: "toLowerCase ''text'' = ''text''"
  by code_simp

lemma toLowerCase_latex: "toLowerCase ''latex'' = ''latex''"
  by code_simp

lemma toLowerCase_mathematica: "toLowerCase ''mathematica'' = ''mathematica''"
  by code_simp

lemma toLowerCase_LaTeX: "toLowerCase ''LaTeX'' = ''latex''"
  by code_simp

lemma toLowerCase_pdf: "toLowerCase ''pdf'' = ''pdf''"
  by code_simp

lemma executeMathematicaCode_flag:
  "formatOption f = formatOption g \<Longrightarrow>
   executeMathematicaCode w code f = executeMathematicaCode w code g"
proof -
  assume "formatOption f = formatOption g"
  then have "engine_command w f = engine_command w g"
    by (simp add: engine_command_def)
  then show ?thesis
    by (simp only: executeMathematicaCode_def execute_try_catch_def)
qed

section \<open>The execution adapter: the temporary file\<close>

lemma try_catch_head:
  "take 2 (fst (execute_try_catch w code format)) =
     [Log ''API'' ''Executing Mathematica code'', WriteFile (tempFilePath w) code]"
  by (simp add: execute_try_catch_def split: option.splits exec_result.splits)

lemma try_catch_length: "2 \<le> length (fst (execute_try_catch w code format))"
  by (simp add: execute_try_catch_def split: option.splits exec_result.splits)

lemma try_catch_no_unlink: "filter is_Unlink (fst (execute_try_catch w code format)) = []"
  by (simp add: execute_try_catch_def split: option.splits exec_result.splits)

lemma try_catch_writes:
  "filter is_WriteFile (fst (execute_try_catch w code format)) =
     [WriteFile (tempFilePath w) code]"
  by (simp add: execute_try_catch_def split: option.splits exec_result.splits)

lemma try_catch_execs:
  "filter is_Exec (fst (execute_try_catch w code format)) =
     (if writeFile w (tempFilePath w) code = None then [Exec (engine_command w format)] else [])"
  by (simp add: execute_try_catch_def split: option.splits exec_result.splits)

lemma finally_unlinks: "filter is_Unlink (execute_finally w) = [Unlink (tempFilePath w)]"
  by (simp add: execute_finally_def split: option.splits)

lemma finally_no_write: "filter is_WriteFile (execute_finally w) = []"
  by (simp add: execute_finally_def split: option.splits)

lemma finally_no_exec: "filter is_Exec (execute_finally w) = []"
  by (simp add: execute_finally_def split: option.splits)

lemma execute_trace:
  "fst (executeMathematicaCode w code format) =
     fst (execute_try_catch w code format) @ execute_finally w"
  by (simp add: executeMathematicaCode_def split: prod.splits)

lemma execute_result:
  "snd (executeMathematicaCode w code format) = snd (execute_try_catch w code format)"
  by (simp add: executeMathematicaCode_def split: prod.splits)

lemma tempFilePath_unlink: "tempFilePath (w\<lparr>unlink := u\<rparr>) = tempFilePath w"
  by (simp add: tempFilePath_def)

lemma engine_command_unlink:
  "engine_command (w\<lparr>unlink := u\<rparr>) format = engine_command w format"
  by (simp add: engine_command_def tempFilePath_unlink)

lemma try_catch_ignores_unlink:
  "execute_try_catch (w\<lparr>unlink := u\<rparr>) code format = execute_try_catch w code format"
  by (simp add: execute_try_catch_def tempFilePath_unlink engine_command_unlink
      cong: option.case_cong exec_result.case_cong)

lemma adapter_writes:
  "filter is_WriteFile (fst (executeMathematicaCode w code format)) =
     [WriteFile (tempFilePath w) code]"
  by (simp add: execute_trace try_catch_writes finally_no_write)

lemma adapter_execs:
  "filter is_Exec (fst (executeMathematicaCode w code format)) =
     (if writeFile w (tempFilePath w) code = None then [Exec (engine_command w format)] else [])"
  by (simp add: execute_trace try_catch_execs finally_no_exec)

text \<open>
  Claim C3. Every run of the adapter starts by logging and writing the temporary
  file, and on every path (the write fails, the engine fails, the engine
  succeeds) the trace holds exactly one \<^verbatim>\<open>unlink\<close> of that file, after the
  write. The outcome of the \<^verbatim>\<open>unlink\<close> does not change what the adapter returns
  or throws, and when the \<^verbatim>\<open>unlink\<close> fails the last event is the warning in the
  log.
\<close>

theorem temp_file_always_unlinked:
  "take 2 (fst (executeMathematicaCode w code format)) =
     [Log ''API'' ''Executing Mathematica code'', WriteFile (tempFilePath w) code]
   \<and> filter is_Unlink (fst (executeMathematicaCode w code format)) = [Unlink (tempFilePath w)]
   \<and> snd (executeMathematicaCode (w\<lparr>unlink := u\<rparr>) code format)
       = snd (executeMathematicaCode w code format)
   \<and> (unlink w (tempFilePath w) \<noteq> None \<longrightarrow>
        last (fst (executeMathematicaCode w code format))
          = Log ''Warning'' ''Failed to delete temporary file'')"
proof -
  have "take 2 (fst (executeMathematicaCode w code format)) =
     [Log ''API'' ''Executing Mathematica code'', WriteFile (tempFilePath w) code]"
    using try_catch_head [of w code format] try_catch_length [of w code format]
    by (simp add: execute_trace)
  moreover have "filter is_Unlink (fst (executeMathematicaCode w code format))
      = [Unlink (tempFilePath w)]"
    by (simp add: execute_trace try_catch_no_unlink finally_unlinks)
  moreover have "snd (executeMathematicaCode (w\<lparr>unlink := u\<rparr>) code format)
       = snd (executeMathematicaCode w code format)"
    by (simp only: execute_result try_catch_ignores_unlink)
  moreover have "last (fst (executeMathematicaCode w code format))
          = Log ''Warning'' ''Failed to delete temporary file''"
    if "unlink w (tempFilePath w) \<noteq> None"
    using that by (auto simp add: execute_trace execute_finally_def)
  ultimately show ?thesis by blast
qed

lemma tempFilePath_unlink_failing_env:
  "tempFilePath unlink_failing_env = ''/tmp/mcp_mathematica_1700000000000_k3x9q.wl''"
  by (simp add: tempFilePath_def unlink_failing_env_def working_env_def show_nat.simps)

theorem temp_file_always_unlinked_witness:
  "unlink unlink_failing_env (tempFilePath unlink_failing_env) \<noteq> None
   \<and> filter is_Unlink (fst (executeMathematicaCode unlink_failing_env ''2 + 2'' ''text''))
       = [Unlink ''/tmp/mcp_mathematica_1700000000000_k3x9q.wl'']
   \<and> last (fst (executeMathematicaCode unlink_failing_env ''2 + 2'' ''text''))
       = Log ''Warning'' ''Failed to delete temporary file''
   \<and> snd (executeMathematicaCode unlink_failing_env ''2 + 2'' ''text'') = Inr ''4''
   \<and> snd (executeMathematicaCode
            (unlink_failing_env\<lparr>unlink := (\<lambda>path. None)\<rparr>) ''2 + 2'' ''text'') = Inr ''4''"
proof -
  have f: "unlink unlink_failing_env (tempFilePath unlink_failing_env) \<noteq> None"
    by (simp add: unlink_failing_env_def)
  have r: "snd (executeMathematicaCode unlink_failing_env ''2 + 2'' ''text'') = Inr ''4''"
    by (simp add: execute_result execute_try_catch_def unlink_failing_env_def working_env_def
        trim_def is_whitespace_def)
  from f r temp_file_always_unlinked
    [of unlink_failing_env "''2 + 2''" "''text''" "\<lambda>path. None"]
  show ?thesis
    by (simp add: tempFilePath_unlink_failing_env)
qed

section \<open>The claims about the format flag\<close>

lemma engine_command_flag:
  "engine_command w format =
     ''wolframscript '' @ formatOption format @ '' -file '' @ [CHR 0x22]
     @ tempFilePath w @ [CHR 0x22]"
  by (simp only: engine_command_def)

lemma adapter_success:
  "writeFile w (tempFilePath w) code = None \<Longrightarrow>
   execAsync w (engine_command w format) = ExecOk out err \<Longrightarrow>
   snd (executeMathematicaCode w code format) = Inr (trim out)"
  by (simp add: execute_result execute_try_catch_def)

text \<open>
  Claim C8. The command line that the adapter gives to \<^verbatim>\<open>execAsync\<close> carries the
  flag of the format: \<^verbatim>\<open>-format latex\<close> for \<^verbatim>\<open>latex\<close>, \<^verbatim>\<open>-format mathematica\<close>
  for \<^verbatim>\<open>mathematica\<close>, and \<^verbatim>\<open>-format text\<close> for every format whose lower-case
  form is neither of them. Whenever the temporary file was written, the one
  subprocess of the run is that command line. A format that is not recognised
  makes the adapter do, event for event and with the same result, what it does
  for \<^verbatim>\<open>text\<close>; and whatever the format, the run returns the trimmed output
  once the write and the engine have succeeded, so the format never causes an
  error of its own.
\<close>

theorem format_flag_mapping:
  "formatOption ''latex'' = ''-format latex''
   \<and> formatOption ''mathematica'' = ''-format mathematica''
   \<and> engine_command w ''latex'' =
        ''wolframscript -format latex -file '' @ [CHR 0x22] @ tempFilePath w @ [CHR 0x22]
   \<and> engine_command w ''mathematica'' =
        ''wolframscript -format mathematica -file '' @ [CHR 0x22] @ tempFilePath w @ [CHR 0x22]
   \<and> (toLowerCase format \<notin> {''latex'', ''mathematica''} \<longrightarrow>
        formatOption format = ''-format text''
        \<and> engine_command w format =
            ''wolframscript -format text -file '' @ [CHR 0x22] @ tempFilePath w @ [CHR 0x22]
        \<and> executeMathematicaCode w code format = executeMathematicaCode w code ''text'')
   \<and> filter is_Exec (fst (executeMathematicaCode w code format)) =
        (if writeFile w (tempFilePath w) code = None
         then [Exec (engine_command w format)] else [])
   \<and> (\<forall>out err. writeFile w (tempFilePath w) code = None
          \<and> execAsync w (engine_command w format) = ExecOk out err \<longrightarrow>
          snd (executeMathematicaCode w code format) = Inr (trim out))"
proof -
  have txt_flag: "formatOption ''text'' = ''-format text''"
    by (simp add: formatOption_def toLowerCase_text)
  have latex_flag: "formatOption ''latex'' = ''-format latex''"
    by (simp add: formatOption_def toLowerCase_latex)
  have mathematica_flag: "formatOption ''mathematica'' = ''-format mathematica''"
    by (simp add: formatOption_def toLowerCase_mathematica)
  have latex_cmd: "engine_command w ''latex'' =
        ''wolframscript -format latex -file '' @ [CHR 0x22] @ tempFilePath w @ [CHR 0x22]"
    by (simp add: engine_command_flag latex_flag)
  have mathematica_cmd: "engine_command w ''mathematica'' =
        ''wolframscript -format mathematica -file '' @ [CHR 0x22] @ tempFilePath w @ [CHR 0x22]"
    by (simp add: engine_command_flag mathematica_flag)
  have other: "formatOption format = ''-format text''
      \<and> engine_command w format =
          ''wolframscript -format text -file '' @ [CHR 0x22] @ tempFilePath w @ [CHR 0x22]
      \<and> executeMathematicaCode w code format = executeMathematicaCode w code ''text''"
    if "toLowerCase format \<notin> {''latex'', ''mathematica''}"
  proof -
    from that have f: "formatOption format = ''-format text''"
      by (simp add: formatOption_text)
    then have c: "engine_command w format =
          ''wolframscript -format text -file '' @ [CHR 0x22] @ tempFilePath w @ [CHR 0x22]"
      by (simp add: engine_command_flag)
    from f txt_flag have "formatOption format = formatOption ''text''" by simp
    from executeMathematicaCode_flag [OF this] f c show ?thesis by simp
  qed
  have execs: "filter is_Exec (fst (executeMathematicaCode w code format)) =
        (if writeFile w (tempFilePath w) code = None
         then [Exec (engine_command w format)] else [])"
    by (rule adapter_execs)
  have ok: "\<forall>out err. writeFile w (tempFilePath w) code = None
          \<and> execAsync w (engine_command w format) = ExecOk out err \<longrightarrow>
          snd (executeMathematicaCode w code format) = Inr (trim out)"
    by (simp add: adapter_success)
  from latex_flag mathematica_flag latex_cmd mathematica_cmd other execs ok
  show ?thesis by blast
qed

theorem format_flag_mapping_witness:
  "toLowerCase ''pdf'' \<notin> {''latex'', ''mathematica''}
   \<and> formatOption ''pdf'' = ''-format text''
   \<and> engine_command working_env ''pdf'' =
        ''wolframscript -format text -file '' @ [CHR 0x22]
        @ ''/tmp/mcp_mathematica_1700000000000_k3x9q.wl'' @ [CHR 0x22]
   \<and> executeMathematicaCode working_env ''2 + 2'' ''pdf''
       = executeMathematicaCode working_env ''2 + 2'' ''text''
   \<and> filter is_Exec (fst (executeMathematicaCode working_env ''2 + 2'' ''pdf'')) =
        [Exec (''wolframscript -format text -file '' @ [CHR 0x22]
               @ ''/tmp/mcp_mathematica_1700000000000_k3x9q.wl'' @ [CHR 0x22])]
   \<and> snd (executeMathematicaCode working_env ''2 + 2'' ''pdf'') = Inr ''4''"
proof -
  note th = format_flag_mapping [of working_env "''pdf''" "''2 + 2''"]
  have p: "toLowerCase ''pdf'' \<notin> {''latex'', ''mathematica''}"
    by (simp add: toLowerCase_pdf)
  have w: "writeFile working_env (tempFilePath working_env) ''2 + 2'' = None"
    by (simp add: working_env_def)
  have x: "execAsync working_env (engine_command working_env ''pdf'') = ExecOk ''4\<newline>'' []"
    by (simp add: working_env_def)
  have t: "trim ''4\<newline>'' = ''4''"
    by (simp add: trim_def is_whitespace_def)
  from th p have a: "formatOption ''pdf'' = ''-format text''"
    and b: "engine_command working_env ''pdf'' =
        ''wolframscript -format text -file '' @ [CHR 0x22]
        @ tempFilePath working_env @ [CHR 0x22]"
    and c: "executeMathematicaCode working_env ''2 + 2'' ''pdf''
       = executeMathematicaCode working_env ''2 + 2'' ''text''"
    by blast+
  from th w have d: "filter is_Exec (fst (executeMathematicaCode working_env ''2 + 2'' ''pdf''))
       = [Exec (engine_command working_env ''pdf'')]"
    by simp
  from th w x have e: "snd (executeMathematicaCode working_env ''2 + 2'' ''pdf'')
       = Inr (trim ''4\<newline>'')"
    by blast
  from p a b c d e t show ?thesis
    by (simp add: tempFilePath_working_env)
qed

text \<open>
  Claim C9. The flag, the command line and the whole run of the adapter depend on
  the format only through its lower-case form.
\<close>

theorem format_case_insensitive:
  "toLowerCase f = toLowerCase g \<Longrightarrow>
   formatOption f = formatOption g \<and> engine_command w f = engine_command w g
   \<and> executeMathematicaCode w code f = executeMathematicaCode w code g"
proof -
  assume "toLowerCase f = toLowerCase g"
  then have eq: "formatOption f = formatOption g"
    by (simp only: formatOption_def)
  then have "engine_command w f = engine_command w g"
    by (simp only: engine_command_def)
  with eq executeMathematicaCode_flag [OF eq] show ?thesis
    by simp
qed

theorem format_case_insensitive_witness:
  "formatOption ''LaTeX'' = ''-format latex'' \<and> formatOption ''latex'' = ''-format latex''
   \<and> engine_command working_env ''LaTeX'' = engine_command working_env ''latex''"
proof -
  have "toLowerCase ''LaTeX'' = toLowerCase ''latex''"
    by (simp add: toLowerCase_LaTeX toLowerCase_latex)
  from format_case_insensitive [OF this, of working_env "''x''"]
  have "formatOption ''LaTeX'' = formatOption ''latex''"
    and "engine_command working_env ''LaTeX'' = engine_command working_env ''latex''"
    by simp_all
  moreover have "formatOption ''latex'' = ''-format latex''"
    by (simp add: formatOption_def toLowerCase_latex)
  ultimately show ?thesis by simp
qed

section \<open>The probe and the validation of arguments\<close>

lemma handler_probe_fails:
  "execAsync w ''wolframscript -help'' = ExecFail e \<Longrightarrow>
   handler w r =
     ([Log ''Setup'' ''Checking Mathematica installation...'',
       Exec ''wolframscript -help'',
       Log ''Error'' ''Mathematica not found or not accessible''],
      Inr \<lparr>content_text = unavailable_text, isError = True\<rparr>)"
  by (simp add: handler_def checkMathematicaInstallation_def)

lemma handler_probe_ok:
  "execAsync w ''wolframscript -help'' = ExecOk out err \<Longrightarrow>
   handler w r =
     ([Log ''Setup'' ''Checking Mathematica installation...'',
       Exec ''wolframscript -help'',
       Log ''Setup'' ''Mathematica installation verified''] @ fst (dispatch w r),
      snd (dispatch w r))"
  by (simp add: handler_def checkMathematicaInstallation_def split: prod.splits)

text \<open>
  Claim C7. The handler is a function of the request and of the environment of
  the call alone: it keeps nothing from one call to the next. Whatever the tool
  name, its first two events are the log line of the probe and the subprocess
  \<^verbatim>\<open>wolframscript -help\<close>; when that subprocess fails, the call ends there with
  the error-flagged response, and the trace holds nothing of the \<^verbatim>\<open>switch\<close>.
\<close>

theorem probe_on_every_call:
  "take 2 (fst (handler w r)) =
     [Log ''Setup'' ''Checking Mathematica installation...'', Exec ''wolframscript -help'']
   \<and> (\<forall>e. execAsync w ''wolframscript -help'' = ExecFail e \<longrightarrow>
          handler w r =
            ([Log ''Setup'' ''Checking Mathematica installation...'',
              Exec ''wolframscript -help'',
              Log ''Error'' ''Mathematica not found or not accessible''],
             Inr \<lparr>content_text = unavailable_text, isError = True\<rparr>))"
proof -
  have "take 2 (fst (handler w r)) =
     [Log ''Setup'' ''Checking Mathematica installation...'', Exec ''wolframscript -help'']"
    by (cases "execAsync w ''wolframscript -help''")
       (simp_all add: handler_probe_ok handler_probe_fails)
  then show ?thesis
    by (simp add: handler_probe_fails)
qed

theorem probe_on_every_call_witness:
  "execAsync engine_missing_env ''wolframscript -help''
     = ExecFail ''Command failed: wolframscript: not found''
   \<and> handler engine_missing_env (tool_call ''execute_mathematica'' [(''code'', JStr ''2 + 2'')]) =
       ([Log ''Setup'' ''Checking Mathematica installation...'',
         Exec ''wolframscript -help'',
         Log ''Error'' ''Mathematica not found or not accessible''],
        Inr \<lparr>content_text = unavailable_text, isError = True\<rparr>)"
proof -
  have "execAsync engine_missing_env ''wolframscript -help''
     = ExecFail ''Command failed: wolframscript: not found''"
    by (simp add: engine_missing_env_def)
  with probe_on_every_call
    [of engine_missing_env "tool_call ''execute_mathematica'' [(''code'', JStr ''2 + 2'')]"]
  show ?thesis by blast
qed

lemma verify_case_rejects:
  assumes "js_String (js_or (argument r ''format'') (JStr ''text'')) = Some f"
    and "\<not> Array_isArray (argument r ''steps'') \<or> length (elements (argument r ''steps'')) < 2"
  shows "verify_derivation_case w r =
     ([Log ''Tool'' ''Executing verify_derivation tool''],
      Inl (Mcp (McpError InvalidParams ''At least two derivation steps are required'')))"
  using assms by (auto simp add: verify_derivation_case_def)

lemma handler_verify_rejects:
  assumes "params_name r = ''verify_derivation''"
    and "js_String (js_or (argument r ''format'') (JStr ''text'')) = Some f"
    and "\<not> Array_isArray (argument r ''steps'') \<or> length (elements (argument r ''steps'')) < 2"
  shows "handler w r =
     (case execAsync w ''wolframscript -help'' of
        ExecOk out err \<Rightarrow>
          ([Log ''Setup'' ''Checking Mathematica installation...'',
            Exec ''wolframscript -help'',
            Log ''Setup'' ''Mathematica installation verified'',
            Log ''Tool'' ''Executing verify_derivation tool''],
           Inl (Mcp (McpError InvalidParams ''At least two derivation steps are required'')))
      | ExecFail e \<Rightarrow>
          ([Log ''Setup'' ''Checking Mathematica installation...'',
            Exec ''wolframscript -help'',
            Log ''Error'' ''Mathematica not found or not accessible''],
           Inr \<lparr>content_text = unavailable_text, isError = True\<rparr>))"
proof (cases "execAsync w ''wolframscript -help''")
  case (ExecOk out err)
  from assms(1) have "dispatch w r = verify_derivation_case w r"
    by (simp add: dispatch_def)
  with ExecOk verify_case_rejects [OF assms(2,3), of w] show ?thesis
    by (simp add: handler_probe_ok)
next
  case (ExecFail e)
  then show ?thesis by (simp add: handler_probe_fails)
qed

text \<open>
  Claim C1, as the code has it. Called with fewer than two steps,
  \<^verbatim>\<open>verifyDerivation\<close> throws \<^verbatim>\<open>InvalidParams\<close> with no event at all. A
  \<^verbatim>\<open>verify_derivation\<close> tool call whose \<^verbatim>\<open>steps\<close> is an array of fewer than
  two elements, and whose format converts to a string, first runs the probe: when
  the probe succeeds the call throws \<^verbatim>\<open>InvalidParams\<close>, the probe being its only
  subprocess and no file being written; when the probe fails the call returns
  the error-flagged response.
\<close>

theorem short_steps_rejected:
  assumes "length steps < 2"
  shows "verifyDerivation w steps format =
           ([], Inl (McpError InvalidParams
                       ''At least two steps are required for a derivation''))
    \<and> (params_name r = ''verify_derivation'' \<and> argument r ''steps'' = JArr steps
        \<and> js_String (js_or (argument r ''format'') (JStr ''text'')) = Some f \<longrightarrow>
        handler w r =
         (case execAsync w ''wolframscript -help'' of
            ExecOk out err \<Rightarrow>
              ([Log ''Setup'' ''Checking Mathematica installation...'',
                Exec ''wolframscript -help'',
                Log ''Setup'' ''Mathematica installation verified'',
                Log ''Tool'' ''Executing verify_derivation tool''],
               Inl (Mcp (McpError InvalidParams
                           ''At least two derivation steps are required'')))
          | ExecFail e \<Rightarrow>
              ([Log ''Setup'' ''Checking Mathematica installation...'',
                Exec ''wolframscript -help'',
                Log ''Error'' ''Mathematica not found or not accessible''],
               Inr \<lparr>content_text = unavailable_text, isError = True\<rparr>)))"
proof -
  from assms have "verifyDerivation w steps format =
           ([], Inl (McpError InvalidParams
                       ''At least two steps are required for a derivation''))"
    by (simp add: verifyDerivation_def)
  moreover have "handler w r =
         (case execAsync w ''wolframscript -help'' of
            ExecOk out err \<Rightarrow>
              ([Log ''Setup'' ''Checking Mathematica installation...'',
                Exec ''wolframscript -help'',
                Log ''Setup'' ''Mathematica installation verified'',
                Log ''Tool'' ''Executing verify_derivation tool''],
               Inl (Mcp (McpError InvalidParams
                           ''At least two derivation steps are required'')))
          | ExecFail e \<Rightarrow>
              ([Log ''Setup'' ''Checking Mathematica installation...'',
                Exec ''wolframscript -help'',
                Log ''Error'' ''Mathematica not found or not accessible''],
               Inr \<lparr>content_text = unavailable_text, isError = True\<rparr>))"
    if "params_name r = ''verify_derivation''" "argument r ''steps'' = JArr steps"
      "js_String (js_or (argument r ''format'') (JStr ''text'')) = Some f"
  proof -
    from that(2) assms
    have "\<not> Array_isArray (argument r ''steps'') \<or> length (elements (argument r ''steps'')) < 2"
      by simp
    from handler_verify_rejects [OF that(1) that(3) this] show ?thesis .
  qed
  ultimately show ?thesis by blast
qed

lemma argument_tool_call: "argument (tool_call name args) key =
   (case map_of args key of None \<Rightarrow> JUndefined | Some v \<Rightarrow> v)"
  by (simp add: argument_def tool_call_def)

theorem short_steps_rejected_witness:
  "length [JStr ''x^2''] < 2
   \<and> verifyDerivation working_env [JStr ''x^2''] ''text'' =
        ([], Inl (McpError InvalidParams ''At least two steps are required for a derivation''))
   \<and> handler working_env (tool_call ''verify_derivation'' [(''steps'', JArr [JStr ''x^2''])]) =
        ([Log ''Setup'' ''Checking Mathematica installation...'',
          Exec ''wolframscript -help'',
          Log ''Setup'' ''Mathematica installation verified'',
          Log ''Tool'' ''Executing verify_derivation tool''],
         Inl (Mcp (McpError InvalidParams ''At least two derivation steps are required'')))"
proof -
  have l: "length [JStr ''x^2''] < 2" by simp
  have a: "params_name (tool_call ''verify_derivation'' [(''steps'', JArr [JStr ''x^2''])])
             = ''verify_derivation''"
    by (simp add: tool_call_def)
  have b: "argument (tool_call ''verify_derivation'' [(''steps'', JArr [JStr ''x^2''])]) ''steps''
             = JArr [JStr ''x^2'']"
    by (simp add: argument_tool_call)
  have c: "js_String (js_or (argument (tool_call ''verify_derivation''
              [(''steps'', JArr [JStr ''x^2''])]) ''format'') (JStr ''text'')) = Some ''text''"
    by (simp add: argument_tool_call js_or_def)
  have p: "execAsync working_env ''wolframscript -help'' = ExecOk ''4\<newline>'' []"
    by (simp add: working_env_def)
  from short_steps_rejected [OF l, of working_env "''text''"
      "tool_call ''verify_derivation'' [(''steps'', JArr [JStr ''x^2''])]" "''text''"] a b c p l
  show ?thesis by simp
qed

text \<open>
  Claim C1 as stated fails: a call with an empty array of steps spawns the
  subprocess of the probe, and where the engine is missing it returns a response
  instead of throwing \<^verbatim>\<open>InvalidParams\<close>.
\<close>

theorem short_steps_probe_spawned:
  "Exec ''wolframscript -help''
     \<in> set (fst (handler working_env (tool_call ''verify_derivation'' [(''steps'', JArr [])])))
   \<and> snd (handler engine_missing_env (tool_call ''verify_derivation'' [(''steps'', JArr [])]))
       = Inr \<lparr>content_text = unavailable_text, isError = True\<rparr>"
proof -
  have "execAsync working_env ''wolframscript -help'' = ExecOk ''4\<newline>'' []"
    by (simp add: working_env_def)
  then have "Exec ''wolframscript -help''
     \<in> set (fst (handler working_env (tool_call ''verify_derivation'' [(''steps'', JArr [])])))"
    by (simp add: handler_probe_ok)
  moreover have "execAsync engine_missing_env ''wolframscript -help''
     = ExecFail ''Command failed: wolframscript: not found''"
    by (simp add: engine_missing_env_def)
  then have "snd (handler engine_missing_env (tool_call ''verify_derivation'' [(''steps'', JArr [])]))
       = Inr \<lparr>content_text = unavailable_text, isError = True\<rparr>"
    by (simp add: handler_probe_fails)
  ultimately show ?thesis by simp
qed

lemma params_name_tool_call: "params_name (tool_call name args) = name"
  by (simp add: tool_call_def)

text \<open>
  Claim C10, as the code has it. For a \<^verbatim>\<open>verify_derivation\<close> call whose
  \<^verbatim>\<open>steps\<close> is not an array and whose format converts to a string, the
  \<^verbatim>\<open>case\<close> throws \<^verbatim>\<open>InvalidParams\<close> after its log line alone; the handler
  does so when the probe succeeds, with no event but the probe's and that log
  line, and returns the error-flagged response when the probe fails.
\<close>

theorem non_array_steps_rejected:
  assumes "params_name r = ''verify_derivation''"
    and "\<not> Array_isArray (argument r ''steps'')"
    and "js_String (js_or (argument r ''format'') (JStr ''text'')) = Some f"
  shows "verify_derivation_case w r =
           ([Log ''Tool'' ''Executing verify_derivation tool''],
            Inl (Mcp (McpError InvalidParams ''At least two derivation steps are required'')))
    \<and> handler w r =
         (case execAsync w ''wolframscript -help'' of
            ExecOk out err \<Rightarrow>
              ([Log ''Setup'' ''Checking Mathematica installation...'',
                Exec ''wolframscript -help'',
                Log ''Setup'' ''Mathematica installation verified'',
                Log ''Tool'' ''Executing verify_derivation tool''],
               Inl (Mcp (McpError InvalidParams
                           ''At least two derivation steps are required'')))
          | ExecFail e \<Rightarrow>
              ([Log ''Setup'' ''Checking Mathematica installation...'',
                Exec ''wolframscript -help'',
                Log ''Error'' ''Mathematica not found or not accessible''],
               Inr \<lparr>content_text = unavailable_text, isError = True\<rparr>))"
proof -
  from assms(2)
  have bad: "\<not> Array_isArray (argument r ''steps'') \<or> length (elements (argument r ''steps'')) < 2"
    by simp
  from verify_case_rejects [OF assms(3) bad] handler_verify_rejects [OF assms(1) assms(3) bad]
  show ?thesis by simp
qed

theorem non_array_steps_rejected_witness:
  "\<not> Array_isArray (JStr ''x^2, (x)^2'')
   \<and> handler working_env (tool_call ''verify_derivation'' [(''steps'', JStr ''x^2, (x)^2'')]) =
        ([Log ''Setup'' ''Checking Mathematica installation...'',
          Exec ''wolframscript -help'',
          Log ''Setup'' ''Mathematica installation verified'',
          Log ''Tool'' ''Executing verify_derivation tool''],
         Inl (Mcp (McpError InvalidParams ''At least two derivation steps are required'')))"
proof -
  let ?r = "tool_call ''verify_derivation'' [(''steps'', JStr ''x^2, (x)^2'')]"
  have a: "params_name ?r = ''verify_derivation''"
    by (simp add: tool_call_def)
  have b: "\<not> Array_isArray (argument ?r ''steps'')"
    by (simp add: argument_tool_call)
  have c: "js_String (js_or (argument ?r ''format'') (JStr ''text'')) = Some ''text''"
    by (simp add: argument_tool_call js_or_def)
  have p: "execAsync working_env ''wolframscript -help'' = ExecOk ''4\<newline>'' []"
    by (simp add: working_env_def)
  from non_array_steps_rejected [OF a b c, of working_env] p show ?thesis by simp
qed

text \<open>
  Claim C10 as stated fails: where the engine is missing the handler returns a
  response, and a format object with a \<^verbatim>\<open>toString\<close> key of its own makes the
  conversion of the format throw a \<^verbatim>\<open>TypeError\<close> before \<^verbatim>\<open>steps\<close> is tested.
\<close>

theorem non_array_steps_not_always_InvalidParams:
  "snd (handler engine_missing_env (tool_call ''verify_derivation'' [(''steps'', JStr ''x^2'')]))
     = Inr \<lparr>content_text = unavailable_text, isError = True\<rparr>
   \<and> snd (handler working_env
            (tool_call ''verify_derivation''
               [(''steps'', JStr ''x^2''), (''format'', JObj [(''toString'', JNull)])]))
     = Inl TypeError"
proof -
  have "execAsync engine_missing_env ''wolframscript -help''
     = ExecFail ''Command failed: wolframscript: not found''"
    by (simp add: engine_missing_env_def)
  then have "snd (handler engine_missing_env
                    (tool_call ''verify_derivation'' [(''steps'', JStr ''x^2'')]))
       = Inr \<lparr>content_text = unavailable_text, isError = True\<rparr>"
    by (simp add: handler_probe_fails)
  moreover have "execAsync working_env ''wolframscript -help'' = ExecOk ''4\<newline>'' []"
    by (simp add: working_env_def)
  then have "snd (handler working_env
            (tool_call ''verify_derivation''
               [(''steps'', JStr ''x^2''), (''format'', JObj [(''toString'', JNull)])]))
     = Inl TypeError"
    by (simp add: handler_probe_ok dispatch_def verify_derivation_case_def
        argument_tool_call js_or_def params_name_tool_call)
  ultimately show ?thesis by simp
qed

lemma execute_trace_has_write:
  "WriteFile (tempFilePath w) code \<in> set (fst (executeMathematicaCode w code format))"
proof -
  have "WriteFile (tempFilePath w) code
          \<in> set (filter is_WriteFile (fst (executeMathematicaCode w code format)))"
    by (simp only: execute_trace filter_append try_catch_writes finally_no_write) simp
  then show ?thesis by simp
qed

lemma execute_case_runs:
  assumes "js_String (argument r ''code'') = Some code" and "code \<noteq> []"
    and "js_String (js_or (argument r ''format'') (JStr ''text'')) = Some f"
  shows "execute_mathematica_case w r =
     (case executeMathematicaCode w code f of
        (t, Inr result) \<Rightarrow>
          (Log ''Tool'' ''Executing execute_mathematica tool'' # t,
           Inr \<lparr>content_text = result, isError = False\<rparr>)
      | (t, Inl e) \<Rightarrow>
          (Log ''Tool'' ''Executing execute_mathematica tool'' # t
           @ [Log ''Error'' ''Tool execution failed''],
           Inr \<lparr>content_text = ''Error executing Mathematica code: '' @ message w e,
                isError = True\<rparr>))"
  using assms by (simp add: execute_mathematica_case_def split: prod.splits sum.splits)

text \<open>
  Claim C2 does not hold of the code. \<^verbatim>\<open>String(undefined)\<close> is the text
  \<^verbatim>\<open>undefined\<close>, which is not empty, so the test \<^verbatim>\<open>!code\<close> lets a call without
  a \<^verbatim>\<open>code\<close> argument through: once the probe has succeeded, the text
  \<^verbatim>\<open>undefined\<close> is written to the temporary file for the engine and the call
  returns a response, not \<^verbatim>\<open>InvalidParams\<close>.
\<close>

theorem missing_code_is_executed:
  assumes "params_name r = ''execute_mathematica''"
    and "argument r ''code'' = JUndefined"
    and "js_String (js_or (argument r ''format'') (JStr ''text'')) = Some f"
    and "execAsync w ''wolframscript -help'' = ExecOk out err"
  shows "WriteFile (tempFilePath w) ''undefined'' \<in> set (fst (handler w r))
    \<and> (\<exists>resp. snd (handler w r) = Inr resp)"
proof -
  from assms(2) have c: "js_String (argument r ''code'') = Some ''undefined''" by simp
  have d: "dispatch w r = execute_mathematica_case w r"
    using assms(1) by (simp add: dispatch_def)
  obtain t res where e: "executeMathematicaCode w ''undefined'' f = (t, res)"
    by (cases "executeMathematicaCode w ''undefined'' f")
  with execute_trace_has_write [of w "''undefined''" f]
  have wr: "WriteFile (tempFilePath w) ''undefined'' \<in> set t" by simp
  from execute_case_runs [OF c _ assms(3), of w] e wr d
  show ?thesis
    by (cases res) (simp_all add: handler_probe_ok [OF assms(4)])
qed

theorem missing_code_is_executed_witness:
  "WriteFile ''/tmp/mcp_mathematica_1700000000000_k3x9q.wl'' ''undefined''
     \<in> set (fst (handler working_env (tool_call ''execute_mathematica'' [])))
   \<and> (\<exists>resp. snd (handler working_env (tool_call ''execute_mathematica'' [])) = Inr resp)"
proof -
  let ?r = "tool_call ''execute_mathematica'' []"
  have a: "params_name ?r = ''execute_mathematica''"
    by (simp add: tool_call_def)
  have b: "argument ?r ''code'' = JUndefined"
    by (simp add: argument_tool_call)
  have c: "js_String (js_or (argument ?r ''format'') (JStr ''text'')) = Some ''text''"
    by (simp add: argument_tool_call js_or_def)
  have p: "execAsync working_env ''wolframscript -help'' = ExecOk ''4\<newline>'' []"
    by (simp add: working_env_def)
  from missing_code_is_executed [OF a b c p] show ?thesis
    by (simp add: tempFilePath_working_env)
qed

section \<open>Failures of the engine\<close>

lemma adapter_failure:
  assumes "(Exec cmd \<in> set (fst (executeMathematicaCode w code f)) \<and> execAsync w cmd = ExecFail e)
     \<or> (WriteFile p c \<in> set (fst (executeMathematicaCode w code f)) \<and> writeFile w p c = Some e)"
  shows "snd (executeMathematicaCode w code f) =
     Inl (McpError InternalError (''Failed to execute Mathematica code: '' @ e))"
  using assms
  by (auto simp add: executeMathematicaCode_def execute_try_catch_def execute_finally_def
      split: option.splits exec_result.splits if_splits)

lemma execute_case_io:
  assumes "ev \<in> set (fst (execute_mathematica_case w r))" and "is_Exec ev \<or> is_WriteFile ev"
  shows "\<exists>code f. ev \<in> set (fst (executeMathematicaCode w code f))
     \<and> execute_mathematica_case w r =
       (case executeMathematicaCode w code f of
          (t, Inr result) \<Rightarrow>
            (Log ''Tool'' ''Executing execute_mathematica tool'' # t,
             Inr \<lparr>content_text = result, isError = False\<rparr>)
        | (t, Inl e) \<Rightarrow>
            (Log ''Tool'' ''Executing execute_mathematica tool'' # t
             @ [Log ''Error'' ''Tool execution failed''],
             Inr \<lparr>content_text = ''Error executing Mathematica code: '' @ message w e,
                  isError = True\<rparr>))"
proof (cases "js_String (argument r ''code'')")
  case None
  with assms show ?thesis by (auto simp add: execute_mathematica_case_def)
next
  case (Some code)
  note code = this
  show ?thesis
  proof (cases "js_String (js_or (argument r ''format'') (JStr ''text''))")
    case None
    with code assms show ?thesis by (auto simp add: execute_mathematica_case_def)
  next
    case (Some f)
    show ?thesis
    proof (cases "code = []")
      case True
      with code Some assms show ?thesis by (auto simp add: execute_mathematica_case_def)
    next
      case False
      note run = execute_case_runs [OF code False Some, of w]
      obtain t res where e: "executeMathematicaCode w code f = (t, res)"
        by (cases "executeMathematicaCode w code f")
      from assms run e have "ev \<in> set t"
        by (cases res) auto
      with e run show ?thesis by (intro exI [of _ code] exI [of _ f]) simp
    qed
  qed
qed

lemma verify_io:
  assumes "ev \<in> set (fst (verifyDerivation w steps f))" and "is_Exec ev \<or> is_WriteFile ev"
  shows "ev \<in> set (fst (executeMathematicaCode w (verificationCode steps) f))
     \<and> verifyDerivation w steps f =
       (case executeMathematicaCode w (verificationCode steps) f of
              (t, Inr out) \<Rightarrow>
                (Log ''API'' ''Verifying mathematical derivation'' # t, Inr out)
            | (t, Inl e) \<Rightarrow>
                (Log ''API'' ''Verifying mathematical derivation'' # t
                 @ [Log ''Error'' ''Failed to verify derivation''],
                 Inl (McpError InternalError
                        (''Failed to verify derivation: '' @ message w e))))"
proof (cases "length steps < 2")
  case True
  with assms show ?thesis by (simp add: verifyDerivation_def)
next
  case False
  obtain t res where e: "executeMathematicaCode w (verificationCode steps) f = (t, res)"
    by (cases "executeMathematicaCode w (verificationCode steps) f")
  from False assms e have "ev \<in> set t"
    by (cases res) (auto simp add: verifyDerivation_def)
  with False e show ?thesis by (simp add: verifyDerivation_def)
qed

lemma verify_case_io:
  assumes "ev \<in> set (fst (verify_derivation_case w r))" and "is_Exec ev \<or> is_WriteFile ev"
  shows "\<exists>steps f. ev \<in> set (fst (verifyDerivation w steps f))
     \<and> verify_derivation_case w r =
        (case verifyDerivation w steps f of
                   (t, Inr result) \<Rightarrow>
                     (Log ''Tool'' ''Executing verify_derivation tool'' # t,
                      Inr \<lparr>content_text = result, isError = False\<rparr>)
                 | (t, Inl e) \<Rightarrow>
                     (Log ''Tool'' ''Executing verify_derivation tool'' # t
                      @ [Log ''Error'' ''Tool execution failed''],
                      Inr \<lparr>content_text =
                             ''Error verifying derivation: '' @ message w e,
                           isError = True\<rparr>))"
proof (cases "js_String (js_or (argument r ''format'') (JStr ''text''))")
  case None
  with assms show ?thesis by (auto simp add: verify_derivation_case_def)
next
  case (Some f)
  show ?thesis
  proof (cases "\<not> truthy (argument r ''steps'') \<or> \<not> Array_isArray (argument r ''steps'')
              \<or> length (elements (argument r ''steps'')) < 2")
    case True
    with Some assms show ?thesis by (auto simp add: verify_derivation_case_def)
  next
    case False
    let ?steps = "elements (argument r ''steps'')"
    from Some False have run: "verify_derivation_case w r =
        (case verifyDerivation w ?steps f of
                   (t, Inr result) \<Rightarrow>
                     (Log ''Tool'' ''Executing verify_derivation tool'' # t,
                      Inr \<lparr>content_text = result, isError = False\<rparr>)
                 | (t, Inl e) \<Rightarrow>
                     (Log ''Tool'' ''Executing verify_derivation tool'' # t
                      @ [Log ''Error'' ''Tool execution failed''],
                      Inr \<lparr>content_text =
                             ''Error verifying derivation: '' @ message w e,
                           isError = True\<rparr>))"
      by (simp add: verify_derivation_case_def split: prod.splits sum.splits)
    obtain t res where e: "verifyDerivation w ?steps f = (t, res)"
      by (cases "verifyDerivation w ?steps f")
    from assms run e have "ev \<in> set t"
      by (cases res) auto
    with e run show ?thesis by (intro exI [of _ ?steps] exI [of _ f]) simp
  qed
qed

text \<open>
  Claim C4. In a call of either tool in which a subprocess that was started
  failed, or the write of the temporary file failed, the handler returns a
  response (it does not throw) whose error flag is set and whose text is one of
  the three messages of the source: the engine is not accessible, or the
  execution or the verification failed with the message \<open>e\<close> of the failure.
\<close>

theorem execution_failure_is_error_response:
  assumes name: "params_name r = ''execute_mathematica'' \<or> params_name r = ''verify_derivation''"
    and fail: "(Exec cmd \<in> set (fst (handler w r)) \<and> execAsync w cmd = ExecFail e)
      \<or> (WriteFile p c \<in> set (fst (handler w r)) \<and> writeFile w p c = Some e)"
  shows "\<exists>resp. snd (handler w r) = Inr resp \<and> isError resp
     \<and> content_text resp \<in>
         {unavailable_text,
          ''Error executing Mathematica code: ''
            @ mcp_message w InternalError (''Failed to execute Mathematica code: '' @ e),
          ''Error verifying derivation: ''
            @ mcp_message w InternalError
                (''Failed to verify derivation: ''
                 @ mcp_message w InternalError (''Failed to execute Mathematica code: '' @ e))}"
proof (cases "execAsync w ''wolframscript -help''")
  case (ExecFail e')
  then show ?thesis by (simp add: handler_probe_fails)
next
  case (ExecOk out err)
  note h = handler_probe_ok [OF ExecOk, of r]
  define ev where "ev = (if Exec cmd \<in> set (fst (handler w r)) \<and> execAsync w cmd = ExecFail e
                         then Exec cmd else WriteFile p c)"
  from fail have ev_in: "ev \<in> set (fst (handler w r))"
    and ev_kind: "is_Exec ev \<or> is_WriteFile ev"
    and ev_fail: "(ev = Exec cmd \<and> execAsync w cmd = ExecFail e)
                  \<or> (ev = WriteFile p c \<and> writeFile w p c = Some e)"
    by (auto simp add: ev_def)
  from ev_in ev_fail ExecOk have ev_disp: "ev \<in> set (fst (dispatch w r))"
    by (auto simp add: h)
  have adapter: "snd (executeMathematicaCode w code f) =
       Inl (McpError InternalError (''Failed to execute Mathematica code: '' @ e))"
    if "ev \<in> set (fst (executeMathematicaCode w code f))" for code f
    using that ev_fail adapter_failure [of cmd w code f e p c] by auto
  from name show ?thesis
  proof
    assume n: "params_name r = ''execute_mathematica''"
    then have d: "dispatch w r = execute_mathematica_case w r"
      by (simp add: dispatch_def)
    with ev_disp have "ev \<in> set (fst (execute_mathematica_case w r))" by simp
    from execute_case_io [OF this ev_kind]
    obtain code f where "ev \<in> set (fst (executeMathematicaCode w code f))"
      and eq: "execute_mathematica_case w r =
       (case executeMathematicaCode w code f of
          (t, Inr result) \<Rightarrow>
            (Log ''Tool'' ''Executing execute_mathematica tool'' # t,
             Inr \<lparr>content_text = result, isError = False\<rparr>)
        | (t, Inl e) \<Rightarrow>
            (Log ''Tool'' ''Executing execute_mathematica tool'' # t
             @ [Log ''Error'' ''Tool execution failed''],
             Inr \<lparr>content_text = ''Error executing Mathematica code: '' @ message w e,
                  isError = True\<rparr>))"
      by blast
    from adapter [OF this(1)] eq show ?thesis
      by (cases "executeMathematicaCode w code f") (simp add: h d)
  next
    assume n: "params_name r = ''verify_derivation''"
    then have d: "dispatch w r = verify_derivation_case w r"
      by (simp add: dispatch_def)
    with ev_disp have "ev \<in> set (fst (verify_derivation_case w r))" by simp
    from verify_case_io [OF this ev_kind]
    obtain steps f where v: "ev \<in> set (fst (verifyDerivation w steps f))"
      and eq: "verify_derivation_case w r =
        (case verifyDerivation w steps f of
                   (t, Inr result) \<Rightarrow>
                     (Log ''Tool'' ''Executing verify_derivation tool'' # t,
                      Inr \<lparr>content_text = result, isError = False\<rparr>)
                 | (t, Inl e) \<Rightarrow>
                     (Log ''Tool'' ''Executing verify_derivation tool'' # t
                      @ [Log ''Error'' ''Tool execution failed''],
                      Inr \<lparr>content_text =
                             ''Error verifying derivation: '' @ message w e,
                           isError = True\<rparr>))"
      by blast
    from verify_io [OF v ev_kind]
    have a: "ev \<in> set (fst (executeMathematicaCode w (verificationCode steps) f))"
      and veq: "verifyDerivation w steps f =
       (case executeMathematicaCode w (verificationCode steps) f of
              (t, Inr out) \<Rightarrow>
                (Log ''API'' ''Verifying mathematical derivation'' # t, Inr out)
            | (t, Inl e) \<Rightarrow>
                (Log ''API'' ''Verifying mathematical derivation'' # t
                 @ [Log ''Error'' ''Failed to verify derivation''],
                 Inl (McpError InternalError
                        (''Failed to verify derivation: '' @ message w e))))"
      by simp_all
    from adapter [OF a] veq
    have "snd (verifyDerivation w steps f) =
        Inl (McpError InternalError
               (''Failed to verify derivation: ''
                @ mcp_message w InternalError (''Failed to execute Mathematica code: '' @ e)))"
      by (cases "executeMathematicaCode w (verificationCode steps) f") simp
    with eq show ?thesis
      by (cases "verifyDerivation w steps f") (simp add: h d)
  qed
qed

lemma tempFilePath_engine_failing_env:
  "tempFilePath engine_failing_env = ''/tmp/mcp_mathematica_1700000000000_k3x9q.wl''"
  by (simp add: tempFilePath_def engine_failing_env_def working_env_def show_nat.simps)

lemma engine_command_failing_text:
  "engine_command engine_failing_env ''text'' =
     ''wolframscript -format text -file '' @ [CHR 0x22]
     @ ''/tmp/mcp_mathematica_1700000000000_k3x9q.wl'' @ [CHR 0x22]"
  by (simp add: engine_command_def tempFilePath_engine_failing_env formatOption_def
      toLowerCase_text)

lemma failing_handler_trace:
  "fst (handler engine_failing_env (tool_call ''execute_mathematica'' [(''code'', JStr ''2 + '')]))
   = [Log ''Setup'' ''Checking Mathematica installation...'',
      Exec ''wolframscript -help'',
      Log ''Setup'' ''Mathematica installation verified'',
      Log ''Tool'' ''Executing execute_mathematica tool'',
      Log ''API'' ''Executing Mathematica code'',
      WriteFile ''/tmp/mcp_mathematica_1700000000000_k3x9q.wl'' ''2 + '',
      Exec (engine_command engine_failing_env ''text''),
      Log ''Error'' ''Failed to execute Mathematica code'',
      Unlink ''/tmp/mcp_mathematica_1700000000000_k3x9q.wl'',
      Log ''Error'' ''Tool execution failed'']"
proof -
  have p: "execAsync engine_failing_env ''wolframscript -help'' = ExecOk ''OPTIONS:'' []"
    by (simp add: engine_failing_env_def)
  have m: "execAsync engine_failing_env (engine_command engine_failing_env ''text'')
       = ExecFail ''Command failed: exit code 1''"
    by (simp add: engine_command_failing_text) (simp add: engine_failing_env_def)
  have w: "writeFile engine_failing_env path content = None" for path content
    by (simp add: engine_failing_env_def working_env_def)
  have u: "unlink engine_failing_env path = None" for path
    by (simp add: engine_failing_env_def working_env_def)
  show ?thesis
    by (simp add: handler_probe_ok [OF p] dispatch_def params_name_tool_call
        execute_mathematica_case_def argument_tool_call js_or_def
        executeMathematicaCode_def execute_try_catch_def execute_finally_def m w u
        tempFilePath_engine_failing_env)
qed

theorem execution_failure_is_error_response_witness:
  "execAsync engine_failing_env (engine_command engine_failing_env ''text'')
     = ExecFail ''Command failed: exit code 1''
   \<and> snd (handler engine_failing_env
            (tool_call ''execute_mathematica'' [(''code'', JStr ''2 + '')]))
     = Inr \<lparr>content_text =
              ''Error executing Mathematica code: MCP error -32603: ''
              @ ''Failed to execute Mathematica code: Command failed: exit code 1'',
            isError = True\<rparr>"
proof -
  let ?r = "tool_call ''execute_mathematica'' [(''code'', JStr ''2 + '')]"
  let ?cmd = "engine_command engine_failing_env ''text''"
  have m: "execAsync engine_failing_env ?cmd = ExecFail ''Command failed: exit code 1''"
    by (simp add: engine_command_failing_text) (simp add: engine_failing_env_def)
  have n: "params_name ?r = ''execute_mathematica'' \<or> params_name ?r = ''verify_derivation''"
    by (simp add: params_name_tool_call)
  have i: "Exec ?cmd \<in> set (fst (handler engine_failing_env ?r))"
    by (simp add: failing_handler_trace)
  from i m
  have f: "(Exec ?cmd \<in> set (fst (handler engine_failing_env ?r))
            \<and> execAsync engine_failing_env ?cmd = ExecFail ''Command failed: exit code 1'')
      \<or> (WriteFile [] [] \<in> set (fst (handler engine_failing_env ?r))
          \<and> writeFile engine_failing_env [] [] = Some ''Command failed: exit code 1'')"
    by simp
  have r: "snd (handler engine_failing_env ?r)
     = Inr \<lparr>content_text =
              ''Error executing Mathematica code: MCP error -32603: ''
              @ ''Failed to execute Mathematica code: Command failed: exit code 1'',
            isError = True\<rparr>"
  proof -
    have p: "execAsync engine_failing_env ''wolframscript -help'' = ExecOk ''OPTIONS:'' []"
      by (simp add: engine_failing_env_def)
    have w: "writeFile engine_failing_env path content = None" for path content
      by (simp add: engine_failing_env_def working_env_def)
    have s: "mcp_message engine_failing_env = sdk_message"
      by (simp add: engine_failing_env_def working_env_def)
    show ?thesis
      by (simp add: handler_probe_ok [OF p] dispatch_def params_name_tool_call
          execute_mathematica_case_def argument_tool_call js_or_def
          executeMathematicaCode_def execute_try_catch_def m w s sdk_message_def)
  qed
  from execution_failure_is_error_response [OF n f] m r show ?thesis by simp
qed

section \<open>The verifier and the adapter\<close>

lemma verify_trace:
  assumes "2 \<le> length steps"
  shows "fst (verifyDerivation w steps format) =
     Log ''API'' ''Verifying mathematical derivation''
     # fst (executeMathematicaCode w (verificationCode steps) format)
     @ (case snd (executeMathematicaCode w (verificationCode steps) format) of
          Inl e \<Rightarrow> [Log ''Error'' ''Failed to verify derivation'']
        | Inr out \<Rightarrow> [])"
  using assms by (simp add: verifyDerivation_def split: prod.splits sum.splits)

text \<open>
  Claim C6, as the code has it. With at least two steps, the trace of the
  verifier is its log line, then one run of the adapter on the generated program,
  then the error log line when that run failed; so it holds one write of the
  temporary file, with the program as content. A run of the adapter writes the
  file once and starts at most one subprocess: exactly one, the engine, when the
  file was written, and none when the write failed.
\<close>

theorem verifier_runs_adapter_once:
  assumes "2 \<le> length steps"
  shows "fst (verifyDerivation w steps format) =
           Log ''API'' ''Verifying mathematical derivation''
           # fst (executeMathematicaCode w (verificationCode steps) format)
           @ (case snd (executeMathematicaCode w (verificationCode steps) format) of
                Inl e \<Rightarrow> [Log ''Error'' ''Failed to verify derivation'']
              | Inr out \<Rightarrow> [])
    \<and> filter is_WriteFile (fst (verifyDerivation w steps format)) =
         [WriteFile (tempFilePath w) (verificationCode steps)]
    \<and> filter is_WriteFile (fst (executeMathematicaCode w code format)) =
         [WriteFile (tempFilePath w) code]
    \<and> filter is_Exec (fst (executeMathematicaCode w code format)) =
         (if writeFile w (tempFilePath w) code = None
          then [Exec (engine_command w format)] else [])
    \<and> filter is_Exec (fst (verifyDerivation w steps format)) =
         (if writeFile w (tempFilePath w) (verificationCode steps) = None
          then [Exec (engine_command w format)] else [])"
proof -
  note t = verify_trace [OF assms, of w format]
  have "filter is_WriteFile (fst (verifyDerivation w steps format)) =
         [WriteFile (tempFilePath w) (verificationCode steps)]"
    by (simp add: t adapter_writes split: sum.splits)
  moreover have "filter is_Exec (fst (verifyDerivation w steps format)) =
         (if writeFile w (tempFilePath w) (verificationCode steps) = None
          then [Exec (engine_command w format)] else [])"
    by (simp add: t adapter_execs split: sum.splits)
  ultimately show ?thesis
    using t adapter_writes [of w code format] adapter_execs [of w code format]
    by simp
qed

theorem verifier_runs_adapter_once_witness:
  "2 \<le> length [JStr ''x^2 - y^2'', JStr ''(x-y)*(x+y)'']
   \<and> filter is_WriteFile
        (fst (verifyDerivation working_env [JStr ''x^2 - y^2'', JStr ''(x-y)*(x+y)''] ''text''))
      = [WriteFile ''/tmp/mcp_mathematica_1700000000000_k3x9q.wl''
           (verificationCode [JStr ''x^2 - y^2'', JStr ''(x-y)*(x+y)''])]
   \<and> filter is_Exec
        (fst (verifyDerivation working_env [JStr ''x^2 - y^2'', JStr ''(x-y)*(x+y)''] ''text''))
      = [Exec (engine_command working_env ''text'')]"
proof -
  have l: "2 \<le> length [JStr ''x^2 - y^2'', JStr ''(x-y)*(x+y)'']" by simp
  have w: "writeFile working_env path content = None" for path content
    by (simp add: working_env_def)
  note th = verifier_runs_adapter_once [OF l, of working_env "''text''" "''2 + 2''"]
  from th [THEN conjunct2, THEN conjunct1]
  have a: "filter is_WriteFile
        (fst (verifyDerivation working_env [JStr ''x^2 - y^2'', JStr ''(x-y)*(x+y)''] ''text''))
      = [WriteFile ''/tmp/mcp_mathematica_1700000000000_k3x9q.wl''
           (verificationCode [JStr ''x^2 - y^2'', JStr ''(x-y)*(x+y)''])]"
    by (simp only: tempFilePath_working_env)
  from th [THEN conjunct2, THEN conjunct2, THEN conjunct2, THEN conjunct2]
  have b: "filter is_Exec
        (fst (verifyDerivation working_env [JStr ''x^2 - y^2'', JStr ''(x-y)*(x+y)''] ''text''))
      = [Exec (engine_command working_env ''text'')]"
    by (simp only: w simp_thms if_True)
  from l a b show ?thesis by (simp only: simp_thms)
qed

text \<open>
  Claim C6 as stated fails: a run of the adapter in which the temporary file
  cannot be written starts no subprocess.
\<close>

theorem adapter_without_subprocess:
  "filter is_Exec (fst (executeMathematicaCode disk_full_env ''2 + 2'' ''text'')) = []"
proof -
  have "writeFile disk_full_env path content = Some ''ENOSPC: no space left on device''"
    for path content
    by (simp add: disk_full_env_def)
  then show ?thesis
    by (simp add: adapter_execs)
qed

end
